theory Spec2Isabelle
  imports Main "HOL-Library.AList" "HOL-Library.Sublist"
begin

section \<open>JavaScript syntax and values\<close>

text \<open>
  The repository's only JavaScript is the module \<^verbatim>\<open>src/config/index.js\<close>, a single
  assignment of an object literal to \<^verbatim>\<open>module.exports\<close>. To say what loading the
  module does, and what it does not contain, the module is kept as syntax and given
  a big-step semantics. The expression forms are those of a configuration module:
  literals, identifiers (read from the global environment), property access, the
  conditional operator, arrow functions with an expression body, and calls.
\<close>

datatype expr =
    Str string
  | Num int
  | Bool bool
  | Ident string
  | Object "(string \<times> expr) list"
  | Array "expr list"
  | Member expr string
  | Cond expr expr expr
  | Function "string list" expr
  | Call expr "expr list"

text \<open>
  JavaScript values. An object is the list of its own properties in insertion order;
  a closure keeps the environment it was created in; \<open>JNative\<close> is a function
  provided by the host, about whose results nothing is known.
\<close>

datatype js_value =
    JUndefined
  | JNull
  | JBool bool
  | JNum int
  | JStr string
  | JArray "js_value list"
  | JObject "(string \<times> js_value) list"
  | JClosure "(string \<times> js_value) list" "string list" expr
  | JNative string

text \<open>
  The statements of a module: \<^verbatim>\<open>module.exports = e\<close>, \<^verbatim>\<open>module.exports.k = e\<close>,
  \<^verbatim>\<open>delete module.exports.k\<close>, an assignment \<^verbatim>\<open>x = e\<close> to a global, and the
  two control structures.
\<close>

datatype stmt =
    ExportsAssign expr
  | ExportsSet string expr
  | ExportsDelete string
  | GlobalAssign string expr
  | If expr "stmt list" "stmt list"
  | While expr "stmt list"

section \<open>The site configuration (src/config/index.js)\<close>

text \<open>
  The object literal of the module, field by field in the order of the source. The
  three lines of the literal that are commented out (\<^verbatim>\<open>siteFBAppID\<close>,
  \<^verbatim>\<open>ogSiteName\<close>, \<^verbatim>\<open>googleAnalyticsID\<close>) are comments and define nothing.
\<close>

definition config_literal :: expr where
  "config_literal = Object
    [ (''pathPrefix'', Str ''/''),
      (''siteTitle'', Str ''Code Words''),
      (''siteTitleAlt'', Str ''Code Words - Josh Branchaud''),
      (''siteTitleManifest'', Str ''Code Words''),
      (''siteUrl'', Str ''https://blog.joshbranchaud.com''),
      (''siteLanguage'', Str ''en''),
      (''siteHeadline'', Str ''Learning in public, writing it down''),
      (''siteBanner'', Str ''/social/banner.jpg''),
      (''favicon'', Str ''src/favicon.png''),
      (''siteDescription'',
         Str ''Learning in public, writing it down. A blog written by Josh Branchaud''),
      (''author'', Str ''Josh Branchaud''),
      (''siteLogo'', Str ''/social/logo.png''),
      (''userTwitter'', Str ''@jbrancha''),
      (''ogLanguage'', Str ''en_US''),
      (''themeColor'', Str ''#3498DB''),
      (''backgroundColor'', Str ''#2b2e3c'') ]"

text \<open>The whole module: \<^verbatim>\<open>module.exports = { ... };\<close> and nothing else.\<close>

definition config_module :: "stmt list" where
  "config_module = [ExportsAssign config_literal]"

text \<open>
  The exported object as a value, which is what a consumer of the module holds.
  That loading the module yields exactly this value is proved below
  (\<open>exec_list_config_module\<close>).
\<close>

definition config :: js_value where
  "config = JObject
    [ (''pathPrefix'', JStr ''/''),
      (''siteTitle'', JStr ''Code Words''),
      (''siteTitleAlt'', JStr ''Code Words - Josh Branchaud''),
      (''siteTitleManifest'', JStr ''Code Words''),
      (''siteUrl'', JStr ''https://blog.joshbranchaud.com''),
      (''siteLanguage'', JStr ''en''),
      (''siteHeadline'', JStr ''Learning in public, writing it down''),
      (''siteBanner'', JStr ''/social/banner.jpg''),
      (''favicon'', JStr ''src/favicon.png''),
      (''siteDescription'',
         JStr ''Learning in public, writing it down. A blog written by Josh Branchaud''),
      (''author'', JStr ''Josh Branchaud''),
      (''siteLogo'', JStr ''/social/logo.png''),
      (''userTwitter'', JStr ''@jbrancha''),
      (''ogLanguage'', JStr ''en_US''),
      (''themeColor'', JStr ''#3498DB''),
      (''backgroundColor'', JStr ''#2b2e3c'') ]"

text \<open>The own properties of a value; only an object has any.\<close>

fun properties :: "js_value \<Rightarrow> (string \<times> js_value) list" where
  "properties (JObject fs) = fs"
| "properties _ = []"

text \<open>
  Looking a key up among the own properties: \<open>None\<close> when the object does not define
  it. The JavaScript expression \<^verbatim>\<open>obj.key\<close> then evaluates to \<^verbatim>\<open>undefined\<close>.
\<close>

definition own_property :: "js_value \<Rightarrow> string \<Rightarrow> js_value option" where
  "own_property obj k = map_of (properties obj) k"

definition js_get :: "js_value \<Rightarrow> string \<Rightarrow> js_value" where
  "js_get obj k = (case own_property obj k of None \<Rightarrow> JUndefined | Some v \<Rightarrow> v)"

fun is_string :: "js_value \<Rightarrow> bool" where
  "is_string (JStr s) = True"
| "is_string _ = False"

text \<open>The field names the specification lists as recognized, with the social handle.\<close>

definition recognized_fields :: "string list" where
  "recognized_fields =
    [''pathPrefix'', ''siteTitle'', ''siteUrl'', ''siteDescription'', ''author'',
     ''siteLogo'', ''themeColor'', ''backgroundColor'', ''userTwitter'']"

subsection \<open>Shapes of string values\<close>

definition is_https_url :: "string \<Rightarrow> bool" where
  "is_https_url u = (prefix ''https://'' u \<and> length ''https://'' < length u)"

definition has_trailing_slash :: "string \<Rightarrow> bool" where
  "has_trailing_slash u = (case rev u of [] \<Rightarrow> False | c # _ \<Rightarrow> c = CHR ''/'')"

definition is_hex_digit :: "char \<Rightarrow> bool" where
  "is_hex_digit c = (c \<in> set ''0123456789abcdefABCDEF'')"

definition is_hex_color :: "string \<Rightarrow> bool" where
  "is_hex_color s = (case s of
      [] \<Rightarrow> False
    | c # ds \<Rightarrow> c = CHR ''#'' \<and> length ds = 6 \<and> list_all is_hex_digit ds)"

section \<open>Loading a module\<close>

subsection \<open>Expressions\<close>

fun truthy :: "js_value \<Rightarrow> bool" where
  "truthy JUndefined = False"
| "truthy JNull = False"
| "truthy (JBool b) = b"
| "truthy (JNum n) = (n \<noteq> 0)"
| "truthy (JStr s) = (s \<noteq> [])"
| "truthy _ = True"

text \<open>
  An object literal defines its properties from left to right; a key written twice
  keeps its first position and takes the later value.
\<close>

definition make_object :: "(string \<times> js_value) list \<Rightarrow> (string \<times> js_value) list" where
  "make_object kvs = foldl (\<lambda>ps (k, v). AList.update k v ps) [] kvs"

text \<open>A call binds each parameter to its argument, and to undefined where none is given.\<close>

definition bind_params :: "string list \<Rightarrow> js_value list \<Rightarrow> (string \<times> js_value) list" where
  "bind_params ps vs = zip ps (vs @ replicate (length ps - length vs) JUndefined)"

text \<open>
  \<open>eval env e v\<close>: in the environment \<open>env\<close> the expression \<open>e\<close> evaluates to \<open>v\<close>.
  An evaluation that throws (an unbound identifier, a property of undefined) or does
  not end has no result, and the call of a host function has every result: the
  relation is neither total nor functional in general.
\<close>

inductive eval :: "(string \<times> js_value) list \<Rightarrow> expr \<Rightarrow> js_value \<Rightarrow> bool"
  and evals :: "(string \<times> js_value) list \<Rightarrow> expr list \<Rightarrow> js_value list \<Rightarrow> bool"
  and eval_fields ::
    "(string \<times> js_value) list \<Rightarrow> (string \<times> expr) list \<Rightarrow> (string \<times> js_value) list \<Rightarrow> bool"
where
  eval_Str: "eval env (Str s) (JStr s)"
| eval_Num: "eval env (Num n) (JNum n)"
| eval_Bool: "eval env (Bool b) (JBool b)"
| eval_Ident: "map_of env x = Some v \<Longrightarrow> eval env (Ident x) v"
| eval_Object: "eval_fields env fs kvs \<Longrightarrow> eval env (Object fs) (JObject (make_object kvs))"
| eval_Array: "evals env es vs \<Longrightarrow> eval env (Array es) (JArray vs)"
| eval_Member:
    "eval env e v \<Longrightarrow> v \<noteq> JUndefined \<Longrightarrow> v \<noteq> JNull \<Longrightarrow> eval env (Member e k) (js_get v k)"
| eval_CondTrue:
    "eval env c vc \<Longrightarrow> truthy vc \<Longrightarrow> eval env a v \<Longrightarrow> eval env (Cond c a b) v"
| eval_CondFalse:
    "eval env c vc \<Longrightarrow> \<not> truthy vc \<Longrightarrow> eval env b v \<Longrightarrow> eval env (Cond c a b) v"
| eval_Function: "eval env (Function ps body) (JClosure env ps body)"
| eval_CallClosure:
    "eval env f (JClosure cenv ps body) \<Longrightarrow> evals env args vs
     \<Longrightarrow> eval (bind_params ps vs @ cenv) body v \<Longrightarrow> eval env (Call f args) v"
| eval_CallNative:
    "eval env f (JNative n) \<Longrightarrow> evals env args vs \<Longrightarrow> eval env (Call f args) v"
| evals_Nil: "evals env [] []"
| evals_Cons: "eval env e v \<Longrightarrow> evals env es vs \<Longrightarrow> evals env (e # es) (v # vs)"
| eval_fields_Nil: "eval_fields env [] []"
| eval_fields_Cons:
    "eval env e v \<Longrightarrow> eval_fields env fs kvs \<Longrightarrow> eval_fields env ((k, e) # fs) ((k, v) # kvs)"

subsection \<open>Statements\<close>

text \<open>What a module can change: the value of \<^verbatim>\<open>module.exports\<close> and the globals.\<close>

record state =
  exports :: js_value
  globals :: "(string \<times> js_value) list"

inductive exec :: "state \<Rightarrow> stmt \<Rightarrow> state \<Rightarrow> bool"
  and exec_list :: "state \<Rightarrow> stmt list \<Rightarrow> state \<Rightarrow> bool"
where
  exec_ExportsAssign:
    "eval (globals s) e v \<Longrightarrow> exec s (ExportsAssign e) (s\<lparr>exports := v\<rparr>)"
| exec_ExportsSet:
    "exports s = JObject ps \<Longrightarrow> eval (globals s) e v
     \<Longrightarrow> exec s (ExportsSet k e) (s\<lparr>exports := JObject (AList.update k v ps)\<rparr>)"
| exec_ExportsDelete:
    "exports s = JObject ps
     \<Longrightarrow> exec s (ExportsDelete k) (s\<lparr>exports := JObject (AList.delete k ps)\<rparr>)"
| exec_GlobalAssign:
    "eval (globals s) e v
     \<Longrightarrow> exec s (GlobalAssign x e) (s\<lparr>globals := AList.update x v (globals s)\<rparr>)"
| exec_IfTrue:
    "eval (globals s) c vc \<Longrightarrow> truthy vc \<Longrightarrow> exec_list s yes s' \<Longrightarrow> exec s (If c yes no) s'"
| exec_IfFalse:
    "eval (globals s) c vc \<Longrightarrow> \<not> truthy vc \<Longrightarrow> exec_list s no s' \<Longrightarrow> exec s (If c yes no) s'"
| exec_WhileFalse:
    "eval (globals s) c vc \<Longrightarrow> \<not> truthy vc \<Longrightarrow> exec s (While c body) s"
| exec_WhileTrue:
    "eval (globals s) c vc \<Longrightarrow> truthy vc \<Longrightarrow> exec_list s body s'
     \<Longrightarrow> exec s' (While c body) s'' \<Longrightarrow> exec s (While c body) s''"
| exec_list_Nil: "exec_list s [] s"
| exec_list_Cons: "exec s st s' \<Longrightarrow> exec_list s' sts s'' \<Longrightarrow> exec_list s (st # sts) s''"

text \<open>
  The states a module goes through, one after each of its top-level statements: the
  lifetime of what it exports, as far as the module's own code is concerned.
\<close>

inductive trace :: "state \<Rightarrow> stmt list \<Rightarrow> state list \<Rightarrow> bool" where
  trace_Nil: "trace s [] []"
| trace_Cons: "exec s st s' \<Longrightarrow> trace s' sts tr \<Longrightarrow> trace s (st # sts) (s' # tr)"

text \<open>
  A state a module may be loaded in: \<^verbatim>\<open>module.exports\<close> is the empty object and the
  host's \<^verbatim>\<open>require\<close> is in scope.
\<close>

definition node_start :: state where
  "node_start = \<lparr>exports = JObject [], globals = [(''require'', JNative ''require'')]\<rparr>"

subsection \<open>Code without logic\<close>

text \<open>
  An expression is a literal when it is built from string, number and boolean
  constants by object and array brackets alone: it reads no variable and contains no
  branch, no function and no call.
\<close>

fun literal :: "expr \<Rightarrow> bool" where
  "literal (Str s) = True"
| "literal (Num n) = True"
| "literal (Bool b) = True"
| "literal (Object fs) = (\<forall>(k, e) \<in> set fs. literal e)"
| "literal (Array es) = (\<forall>e \<in> set es. literal e)"
| "literal (Ident x) = False"
| "literal (Member e k) = False"
| "literal (Cond c a b) = False"
| "literal (Function ps body) = False"
| "literal (Call f args) = False"

text \<open>The value a literal stands for.\<close>

fun literal_value :: "expr \<Rightarrow> js_value" where
  "literal_value (Str s) = JStr s"
| "literal_value (Num n) = JNum n"
| "literal_value (Bool b) = JBool b"
| "literal_value (Object fs) = JObject (make_object (map (\<lambda>(k, e). (k, literal_value e)) fs))"
| "literal_value (Array es) = JArray (map literal_value es)"
| "literal_value _ = JUndefined"

fun literal_fields :: "expr \<Rightarrow> (string \<times> expr) list" where
  "literal_fields (Object fs) = fs"
| "literal_fields _ = []"

text \<open>A statement is plain when it is no branch and no loop and its expression is a literal.\<close>

fun plain :: "stmt \<Rightarrow> bool" where
  "plain (ExportsAssign e) = literal e"
| "plain (ExportsSet k e) = literal e"
| "plain (ExportsDelete k) = True"
| "plain (GlobalAssign x e) = literal e"
| "plain (If c yes no) = False"
| "plain (While c body) = False"

text \<open>The statements that can change \<^verbatim>\<open>module.exports\<close> or one of its fields.\<close>

fun writes_exports :: "stmt \<Rightarrow> bool" where
  "writes_exports (ExportsAssign e) = True"
| "writes_exports (ExportsSet k e) = True"
| "writes_exports (ExportsDelete k) = True"
| "writes_exports (GlobalAssign x e) = False"
| "writes_exports (If c yes no) = (\<exists>st \<in> set yes \<union> set no. writes_exports st)"
| "writes_exports (While c body) = (\<exists>st \<in> set body. writes_exports st)"

section \<open>The content documents (src/blog)\<close>

text \<open>
  A content document is a text, modelled as the list of its lines. Each
  definition below is the head of one document, verbatim, from its first line through
  the line that closes the metadata header; the prose that follows is left
  arbitrary, so a document's text is such a head followed by any list of lines.
\<close>

text \<open>\<^verbatim>\<open>src/blog/ensure-column-relationships-with-check-constraints/index.mdx\<close>, lines 1 to 6.\<close>

definition ensure_column_relationships :: "string list" where
  \<open>ensure_column_relationships =
    [ ''---'',
      ''date: "2019-11-02"'',
      ''title: "Enforce Column Relationships With Check Constraints"'',
      ''categories:'',
      ''  - PostgreSQL'',
      ''---'' ]\<close>

text \<open>\<^verbatim>\<open>src/blog/migrating-data-along-with-the-schema/index.mdx\<close>, lines 1 to 7.\<close>

definition migrating_data :: "string list" where
  \<open>migrating_data =
    [ ''---'',
      ''date: "2019-05-22"'',
      ''title: "Migrating Data along with the Schema"'',
      ''categories:'',
      ''  - Rails'',
      ''  - PostgreSQL'',
      ''---'' ]\<close>

text \<open>\<^verbatim>\<open>src/blog/react-loop-2019/index.mdx\<close>, lines 1 to 7.\<close>

definition react_loop_2019 :: "string list" where
  \<open>react_loop_2019 =
    [ ''---'',
      ''date: "2019-06-21"'',
      ''title: "An Incomplete Overview of React Loop 2019"'',
      ''categories:'',
      ''  - React'',
      ''  - Conference'',
      ''---'' ]\<close>

text \<open>\<^verbatim>\<open>src/unnamed/part_000\<close> (the article on Formik's connect), lines 1 to 8.\<close>

definition formik_connected_components :: "string list" where
  \<open>formik_connected_components =
    [ ''---'',
      ''date: "2019-05-25"'',
      ''title: "Formik Connected Components"'',
      ''categories:'',
      ''  - React'',
      ''  - Formik'',
      ''  - JavaScript'',
      ''---'' ]\<close>

text \<open>
  The article on a custom hook for loading state. Its text is the second document held
  in \<^verbatim>\<open>src/blog/migrating-data-along-with-the-schema/index.mdx\<close>, lines 231 to 237;
  its opening delimiter is what follows the mark on line 231 that ends the document
  before it.
\<close>

definition custom_hook_for_loading_state :: "string list" where
  \<open>custom_hook_for_loading_state =
    [ ''---'',
      ''date: "2019-06-08"'',
      ''title: "A Custom Hook For Loading State"'',
      ''categories:'',
      ''  - React'',
      ''  - Hooks'',
      ''---'' ]\<close>

text \<open>All five content documents of the repository.\<close>

definition documents :: "string list list" where
  "documents =
    [ensure_column_relationships, migrating_data, custom_hook_for_loading_state,
     react_loop_2019, formik_connected_components]"

subsection \<open>Reading the metadata header\<close>

text \<open>
  The header is read by the site generator, which is not part of the repository. What
  the properties below mean by a header and its fields is fixed here: a document
  begins with a header when its first line is the delimiter and a later line is the
  delimiter again; the header's lines are those strictly between the two.
\<close>

definition delimiter :: string where
  "delimiter = ''---''"

definition front_matter :: "string list \<Rightarrow> string list option" where
  "front_matter ls = (case ls of
      [] \<Rightarrow> None
    | l # rest \<Rightarrow>
        if l = delimiter \<and> delimiter \<in> set rest
        then Some (takeWhile (\<lambda>x. x \<noteq> delimiter) rest)
        else None)"

text \<open>
  The header's lines are entries \<^verbatim>\<open>key: value\<close>, where a value in double quotes
  stands for the text between the quotes, and entries \<^verbatim>\<open>key:\<close> with no value,
  followed by the items of a list, one per line, each introduced by a dash. A line of
  any other shape makes the header unreadable.
\<close>

datatype yaml = Scalar string | Sequence "string list"

definition trim_left :: "string \<Rightarrow> string" where
  "trim_left s = dropWhile (\<lambda>c. c = CHR '' '') s"

definition unquote :: "string \<Rightarrow> string" where
  \<open>unquote s =
    (if 2 \<le> length s \<and> hd s = CHR ''"'' \<and> last s = CHR ''"''
     then butlast (tl s) else s)\<close>

definition split_entry :: "string \<Rightarrow> (string \<times> string) option" where
  "split_entry l =
    (if CHR '':'' \<in> set l
     then Some (takeWhile (\<lambda>c. c \<noteq> CHR '':'') l,
                trim_left (tl (dropWhile (\<lambda>c. c \<noteq> CHR '':'') l)))
     else None)"

definition sequence_item :: "string \<Rightarrow> string option" where
  "sequence_item l =
    (if prefix ''- '' (trim_left l) then Some (drop 2 (trim_left l)) else None)"

definition add_line ::
  "(string \<times> yaml) list \<Rightarrow> string \<Rightarrow> (string \<times> yaml) list option" where
  "add_line es l = (case sequence_item l of
      Some item \<Rightarrow> (case rev es of
          (k, Sequence items) # earlier \<Rightarrow>
            Some (rev earlier @ [(k, Sequence (items @ [item]))])
        | _ \<Rightarrow> None)
    | None \<Rightarrow> (case split_entry l of
          None \<Rightarrow> None
        | Some (k, v) \<Rightarrow>
            if k = [] then None
            else Some (es @ [(k, if v = [] then Sequence [] else Scalar (unquote v))])))"

fun parse_lines ::
  "(string \<times> yaml) list \<Rightarrow> string list \<Rightarrow> (string \<times> yaml) list option" where
  "parse_lines es [] = Some es"
| "parse_lines es (l # ls) = (case add_line es l of
      None \<Rightarrow> None
    | Some es' \<Rightarrow> parse_lines es' ls)"

definition metadata :: "string list \<Rightarrow> (string \<times> yaml) list option" where
  "metadata doc = (case front_matter doc of
      None \<Rightarrow> None
    | Some ls \<Rightarrow> parse_lines [] ls)"

definition has_field :: "(string \<times> yaml) list \<Rightarrow> string \<Rightarrow> bool" where
  "has_field m k = (map_of m k \<noteq> None)"

subsection \<open>Calendar dates\<close>

definition is_digit :: "char \<Rightarrow> bool" where
  "is_digit c = (c \<in> set ''0123456789'')"

definition number :: "string \<Rightarrow> nat" where
  "number s = foldl (\<lambda>n c. 10 * n + (of_char c - 48)) 0 s"

definition leap_year :: "nat \<Rightarrow> bool" where
  "leap_year y = (y mod 4 = 0 \<and> (y mod 100 \<noteq> 0 \<or> y mod 400 = 0))"

definition days_in_month :: "nat \<Rightarrow> nat \<Rightarrow> nat" where
  "days_in_month y m =
    (if m = 2 then (if leap_year y then 29 else 28)
     else if m \<in> {4, 6, 9, 11} then 30 else 31)"

text \<open>
  A date in the form YYYY-MM-DD: ten characters, digits except for the two dashes,
  the month between 1 and 12 and the day between 1 and the length of that month.
\<close>

definition valid_date :: "string \<Rightarrow> bool" where
  "valid_date s =
    (length s = 10
     \<and> take 1 (drop 4 s) = ''-'' \<and> take 1 (drop 7 s) = ''-''
     \<and> list_all is_digit (take 4 s @ take 2 (drop 5 s) @ drop 8 s)
     \<and> 1 \<le> number (take 2 (drop 5 s)) \<and> number (take 2 (drop 5 s)) \<le> 12
     \<and> 1 \<le> number (drop 8 s)
     \<and> number (drop 8 s) \<le> days_in_month (number (take 4 s)) (number (take 2 (drop 5 s))))"

text \<open>The web-development topics the specification names.\<close>

definition topics :: "string list" where
  "topics = [''React'', ''PostgreSQL'', ''Rails'']"

section \<open>Properties of the configuration object\<close>

lemma config_keys_distinct: "distinct (map fst (properties config))"
  by (simp add: config_def)

text \<open>
  Claim C2. Every field value of the exported configuration object is a string: no
  property of the object holds a number, a boolean, an array, a nested object or any
  other kind of value.
\<close>

theorem config_values_are_strings:
  "\<forall>(k, v) \<in> set (properties config). is_string v"
  by (simp add: config_def)

theorem config_values_are_strings_witness:
  "(''author'', JStr ''Josh Branchaud'') \<in> set (properties config)
   \<and> is_string (JStr ''Josh Branchaud'')"
proof -
  have m: "(''author'', JStr ''Josh Branchaud'') \<in> set (properties config)"
    by (simp add: config_def)
  from config_values_are_strings m
  have "case (''author'', JStr ''Josh Branchaud'') of (k, v) \<Rightarrow> is_string v"
    by (rule bspec)
  with m show ?thesis by simp
qed

text \<open>
  Claim C3. The exported configuration object defines each of the recognized fields
  pathPrefix, siteTitle, siteUrl, siteDescription, author, siteLogo, themeColor and
  backgroundColor, and the social-handle field userTwitter.
\<close>

theorem config_defines_recognized_fields:
  "\<forall>k \<in> set recognized_fields. own_property config k \<noteq> None"
  by (simp add: recognized_fields_def own_property_def config_def)

theorem config_defines_recognized_fields_witness:
  "''userTwitter'' \<in> set recognized_fields \<and> own_property config ''userTwitter'' \<noteq> None"
proof -
  have m: "''userTwitter'' \<in> set recognized_fields"
    by (simp add: recognized_fields_def)
  from config_defines_recognized_fields m
  have "own_property config ''userTwitter'' \<noteq> None"
    by (rule bspec)
  with m show ?thesis by simp
qed

text \<open>
  Claim C8. The field siteUrl is an absolute https URL (the scheme \<^verbatim>\<open>https://\<close>
  followed by a non-empty rest) whose last character is not a slash.
\<close>

theorem siteUrl_https_no_trailing_slash:
  "\<exists>u. own_property config ''siteUrl'' = Some (JStr u)
       \<and> is_https_url u \<and> \<not> has_trailing_slash u"
  by (simp add: own_property_def config_def is_https_url_def has_trailing_slash_def)

text \<open>
  Claim C9. The fields themeColor and backgroundColor are each a string of seven
  characters: the character # followed by exactly six hexadecimal digits.
\<close>

theorem theme_colors_are_hex:
  "(\<exists>c. own_property config ''themeColor'' = Some (JStr c) \<and> length c = 7 \<and> is_hex_color c)
   \<and> (\<exists>c. own_property config ''backgroundColor'' = Some (JStr c)
          \<and> length c = 7 \<and> is_hex_color c)"
  by (simp add: own_property_def config_def is_hex_color_def is_hex_digit_def)

text \<open>
  Claim C10. The optional fields siteFBAppID, ogSiteName and googleAnalyticsID are
  absent from the exported object: looking any of them up finds no property (and the
  JavaScript read yields undefined), while every key the object does define is looked
  up to its string value.
\<close>

theorem optional_fields_absent:
  "own_property config ''siteFBAppID'' = None
   \<and> own_property config ''ogSiteName'' = None
   \<and> own_property config ''googleAnalyticsID'' = None
   \<and> js_get config ''siteFBAppID'' = JUndefined
   \<and> js_get config ''ogSiteName'' = JUndefined
   \<and> js_get config ''googleAnalyticsID'' = JUndefined
   \<and> (\<forall>(k, v) \<in> set (properties config). own_property config k = Some v \<and> is_string v)"
  by (simp add: js_get_def own_property_def config_def)

theorem optional_fields_absent_witness:
  "(''userTwitter'', JStr ''@jbrancha'') \<in> set (properties config)
   \<and> own_property config ''userTwitter'' = Some (JStr ''@jbrancha'')
   \<and> own_property config ''siteFBAppID'' = None"
proof -
  have m: "(''userTwitter'', JStr ''@jbrancha'') \<in> set (properties config)"
    by (simp add: config_def)
  from optional_fields_absent
  have a: "\<forall>(k, v) \<in> set (properties config). own_property config k = Some v \<and> is_string v"
    and n: "own_property config ''siteFBAppID'' = None"
    by blast+
  from a m
  have "case (''userTwitter'', JStr ''@jbrancha'') of
          (k, v) \<Rightarrow> own_property config k = Some v \<and> is_string v"
    by (rule bspec)
  with m n show ?thesis by simp
qed

section \<open>Properties of loading the configuration module\<close>

inductive_cases eval_StrE: "eval env (Str s) v"
inductive_cases eval_NumE: "eval env (Num n) v"
inductive_cases eval_BoolE: "eval env (Bool b) v"
inductive_cases eval_ObjectE: "eval env (Object fs) v"
inductive_cases eval_ArrayE: "eval env (Array es) v"
inductive_cases evals_NilE: "evals env [] vs"
inductive_cases evals_ConsE: "evals env (e # es) vs"
inductive_cases eval_fields_NilE: "eval_fields env [] kvs"
inductive_cases eval_fields_ConsE: "eval_fields env (f # fs) kvs"
inductive_cases exec_ExportsAssignE: "exec s (ExportsAssign e) s'"
inductive_cases exec_list_NilE: "exec_list s [] s'"
inductive_cases exec_list_ConsE: "exec_list s (st # sts) s'"
inductive_cases trace_NilE: "trace s [] tr"
inductive_cases trace_ConsE: "trace s (st # sts) tr"

subsection \<open>A literal evaluates to its value, in every environment\<close>

lemma evals_literals:
  "(\<And>e. e \<in> set es \<Longrightarrow> eval env e (literal_value e))
   \<Longrightarrow> evals env es (map literal_value es)"
  by (induction es) (simp_all add: evals_Nil evals_Cons)

lemma eval_fields_literals:
  "(\<And>k e. (k, e) \<in> set fs \<Longrightarrow> eval env e (literal_value e))
   \<Longrightarrow> eval_fields env fs (map (\<lambda>(k, e). (k, literal_value e)) fs)"
proof (induction fs)
  case Nil
  show ?case by (simp add: eval_fields_Nil)
next
  case (Cons f fs)
  obtain k e where f: "f = (k, e)" by (cases f)
  have "eval env e (literal_value e)" using Cons.prems [of k e] f by simp
  moreover have "eval_fields env fs (map (\<lambda>(k, e). (k, literal_value e)) fs)"
  proof (rule Cons.IH)
    fix k' e' assume "(k', e') \<in> set fs"
    then show "eval env e' (literal_value e')" using Cons.prems [of k' e'] by simp
  qed
  ultimately show ?case using f by (simp add: eval_fields_Cons)
qed

lemma eval_literal: "literal e \<Longrightarrow> eval env e (literal_value e)"
proof (induction e)
  case (Object fs)
  have "eval_fields env fs (map (\<lambda>(k, e). (k, literal_value e)) fs)"
  proof (rule eval_fields_literals)
    fix k e assume m: "(k, e) \<in> set fs"
    with Object.prems have "literal e" by auto
    with m Object.IH [of "(k, e)" e] show "eval env e (literal_value e)" by simp
  qed
  then show ?case by (simp add: eval_Object)
next
  case (Array es)
  have "evals env es (map literal_value es)"
    using Array by (intro evals_literals) simp
  then show ?case by (simp add: eval_Array)
qed (simp_all add: eval_Str eval_Num eval_Bool)

lemma evals_literals_unique:
  "(\<And>e v. e \<in> set es \<Longrightarrow> eval env e v \<Longrightarrow> v = literal_value e)
   \<Longrightarrow> evals env es vs \<Longrightarrow> vs = map literal_value es"
proof (induction es arbitrary: vs)
  case Nil
  then show ?case by (auto elim: evals_NilE)
next
  case (Cons e es)
  from Cons.prems(2) obtain v vs' where vs: "vs = v # vs'"
    and e: "eval env e v" and es: "evals env es vs'"
    by (auto elim: evals_ConsE)
  from e Cons.prems(1) have "v = literal_value e" by simp
  moreover have "vs' = map literal_value es"
  proof (rule Cons.IH [OF _ es])
    fix e' w assume "e' \<in> set es" and "eval env e' w"
    then show "w = literal_value e'" using Cons.prems(1) [of e' w] by simp
  qed
  ultimately show ?case using vs by simp
qed

lemma eval_fields_literals_unique:
  "(\<And>k e v. (k, e) \<in> set fs \<Longrightarrow> eval env e v \<Longrightarrow> v = literal_value e)
   \<Longrightarrow> eval_fields env fs kvs \<Longrightarrow> kvs = map (\<lambda>(k, e). (k, literal_value e)) fs"
proof (induction fs arbitrary: kvs)
  case Nil
  then show ?case by (auto elim: eval_fields_NilE)
next
  case (Cons f fs)
  from Cons.prems(2) obtain k e v kvs' where f: "f = (k, e)" and kvs: "kvs = (k, v) # kvs'"
    and e: "eval env e v" and fs: "eval_fields env fs kvs'"
    by (auto elim: eval_fields_ConsE)
  from e f Cons.prems(1) [of k e v] have "v = literal_value e" by simp
  moreover have "kvs' = map (\<lambda>(k, e). (k, literal_value e)) fs"
  proof (rule Cons.IH [OF _ fs])
    fix k' e' w assume "(k', e') \<in> set fs" and "eval env e' w"
    then show "w = literal_value e'" using Cons.prems(1) [of k' e' w] by simp
  qed
  ultimately show ?case using f kvs by simp
qed

lemma eval_literal_unique: "literal e \<Longrightarrow> eval env e v \<Longrightarrow> v = literal_value e"
proof (induction e arbitrary: v)
  case (Object fs)
  from Object.prems(2) obtain kvs where v: "v = JObject (make_object kvs)"
    and fs: "eval_fields env fs kvs"
    by (auto elim: eval_ObjectE)
  have "kvs = map (\<lambda>(k, e). (k, literal_value e)) fs"
  proof (rule eval_fields_literals_unique [OF _ fs])
    fix k e w assume m: "(k, e) \<in> set fs" and w: "eval env e w"
    with Object.prems have "literal e" by auto
    with m w Object.IH [of "(k, e)" e w] show "w = literal_value e" by simp
  qed
  with v show ?case by simp
next
  case (Array es)
  from Array.prems(2) obtain vs where v: "v = JArray vs" and es: "evals env es vs"
    by (auto elim: eval_ArrayE)
  have "vs = map literal_value es"
    using Array.prems(1) Array.IH by (intro evals_literals_unique [OF _ es]) simp
  with v show ?case by simp
qed (auto elim: eval_StrE eval_NumE eval_BoolE)

text \<open>A statement that does not write the exports leaves them as they are.\<close>

lemma exec_preserves_exports:
  "exec s st s' \<Longrightarrow> \<not> writes_exports st \<Longrightarrow> exports s' = exports s"
  "exec_list s sts s' \<Longrightarrow> \<forall>st \<in> set sts. \<not> writes_exports st \<Longrightarrow> exports s' = exports s"
  by (induction rule: exec_exec_list.inducts) auto

subsection \<open>The module\<close>

lemma literal_config_literal: "literal config_literal"
  by (simp add: config_literal_def)

lemma literal_value_config_literal: "literal_value config_literal = config"
  by (simp add: config_literal_def config_def make_object_def)

lemma exec_construct:
  "exec s (ExportsAssign config_literal) s' \<longleftrightarrow> s' = s\<lparr>exports := config\<rparr>"
proof
  assume "exec s (ExportsAssign config_literal) s'"
  then obtain v where v: "eval (globals s) config_literal v" and s': "s' = s\<lparr>exports := v\<rparr>"
    by (auto elim: exec_ExportsAssignE)
  from literal_config_literal v have "v = literal_value config_literal"
    by (rule eval_literal_unique)
  with s' show "s' = s\<lparr>exports := config\<rparr>"
    by (simp add: literal_value_config_literal)
next
  assume s': "s' = s\<lparr>exports := config\<rparr>"
  have "eval (globals s) config_literal (literal_value config_literal)"
    using literal_config_literal by (rule eval_literal)
  then have "exec s (ExportsAssign config_literal) (s\<lparr>exports := literal_value config_literal\<rparr>)"
    by (rule exec_ExportsAssign)
  with s' show "exec s (ExportsAssign config_literal) s'"
    by (simp add: literal_value_config_literal)
qed

lemma exec_list_config_module:
  "exec_list s config_module s' \<longleftrightarrow> s' = s\<lparr>exports := config\<rparr>"
  unfolding config_module_def
  by (auto simp: exec_construct elim!: exec_list_ConsE exec_list_NilE
      intro!: exec_list_Cons exec_list_Nil)

lemma trace_config_module:
  "trace s config_module tr \<longleftrightarrow> tr = [s\<lparr>exports := config\<rparr>]"
  unfolding config_module_def
  by (auto simp: exec_construct elim!: trace_ConsE trace_NilE
      intro!: trace_Cons trace_Nil)

text \<open>
  Claim C6. The configuration object is never mutated. The only statement of the
  repository's code that writes the exported object is the assignment that
  constructs it; the module runs from every state; and in every state the module
  goes through from the construction on, the exported object is the configuration
  object, each field holding the value its literal gives.
\<close>

theorem config_never_mutated:
  "filter writes_exports config_module = [ExportsAssign config_literal]
   \<and> (\<forall>s. \<exists>tr. trace s config_module tr)
   \<and> (\<forall>s tr. trace s config_module tr \<longrightarrow>
        tr \<noteq> [] \<and> (\<forall>s' \<in> set tr. exports s' = config
          \<and> (\<forall>(k, e) \<in> set (literal_fields config_literal).
                own_property (exports s') k = Some (literal_value e))))"
  apply (simp add: trace_config_module)
  apply (simp add: config_module_def)
  apply (simp add: config_literal_def config_def own_property_def)
  done

theorem config_never_mutated_witness:
  "trace node_start config_module [node_start\<lparr>exports := config\<rparr>]
   \<and> exports (node_start\<lparr>exports := config\<rparr>) = config
   \<and> own_property (exports (node_start\<lparr>exports := config\<rparr>)) ''author''
       = Some (JStr ''Josh Branchaud'')"
proof -
  have t: "trace node_start config_module [node_start\<lparr>exports := config\<rparr>]"
    by (simp add: trace_config_module)
  have f: "(''author'', Str ''Josh Branchaud'') \<in> set (literal_fields config_literal)"
    by (simp add: config_literal_def)
  from config_never_mutated t
  have "\<forall>s' \<in> set [node_start\<lparr>exports := config\<rparr>]. exports s' = config
          \<and> (\<forall>(k, e) \<in> set (literal_fields config_literal).
                own_property (exports s') k = Some (literal_value e))"
    by blast
  then have "\<forall>(k, e) \<in> set (literal_fields config_literal).
      own_property (exports (node_start\<lparr>exports := config\<rparr>)) k = Some (literal_value e)"
    by simp
  from this f
  have "case (''author'', Str ''Josh Branchaud'') of (k, e) \<Rightarrow>
      own_property (exports (node_start\<lparr>exports := config\<rparr>)) k = Some (literal_value e)"
    by (rule bspec)
  with t show ?thesis by simp
qed

text \<open>
  Claim C7. Loading the configuration module is deterministic and free of side
  effects. The module contains no logic: its statement is no branch and no loop, and
  the expression it assigns is a literal, with no function, call, branch or variable
  in it. From every state the load succeeds, and every load ends with the same
  constant object exported and the globals as they were.
\<close>

theorem loading_config_is_constant:
  "list_all plain config_module
   \<and> (\<forall>s. exec_list s config_module (s\<lparr>exports := config\<rparr>))
   \<and> (\<forall>s s'. exec_list s config_module s' \<longrightarrow> exports s' = config \<and> globals s' = globals s)"
  by (simp add: exec_list_config_module)
     (simp add: config_module_def literal_config_literal)

theorem loading_config_is_constant_witness:
  "exec_list node_start config_module (node_start\<lparr>exports := config\<rparr>)
   \<and> exports (node_start\<lparr>exports := config\<rparr>) = config
   \<and> globals (node_start\<lparr>exports := config\<rparr>) = globals node_start"
  using loading_config_is_constant by blast

section \<open>Properties of the content documents\<close>

lemmas header_defs = metadata_def front_matter_def delimiter_def add_line_def
  sequence_item_def split_entry_def trim_left_def unquote_def

text \<open>What each header reads as, whatever lines follow it.\<close>

lemma metadata_ensure_column_relationships:
  "metadata (ensure_column_relationships @ body) = Some
    [(''date'', Scalar ''2019-11-02''),
     (''title'', Scalar ''Enforce Column Relationships With Check Constraints''),
     (''categories'', Sequence [''PostgreSQL''])]"
  by (simp add: ensure_column_relationships_def header_defs)

lemma metadata_migrating_data:
  "metadata (migrating_data @ body) = Some
    [(''date'', Scalar ''2019-05-22''),
     (''title'', Scalar ''Migrating Data along with the Schema''),
     (''categories'', Sequence [''Rails'', ''PostgreSQL''])]"
  by (simp add: migrating_data_def header_defs)

lemma metadata_react_loop_2019:
  "metadata (react_loop_2019 @ body) = Some
    [(''date'', Scalar ''2019-06-21''),
     (''title'', Scalar ''An Incomplete Overview of React Loop 2019''),
     (''categories'', Sequence [''React'', ''Conference''])]"
  by (simp add: react_loop_2019_def header_defs)

lemma metadata_formik_connected_components:
  "metadata (formik_connected_components @ body) = Some
    [(''date'', Scalar ''2019-05-25''),
     (''title'', Scalar ''Formik Connected Components''),
     (''categories'', Sequence [''React'', ''Formik'', ''JavaScript''])]"
  by (simp add: formik_connected_components_def header_defs)

lemma metadata_custom_hook_for_loading_state:
  "metadata (custom_hook_for_loading_state @ body) = Some
    [(''date'', Scalar ''2019-06-08''),
     (''title'', Scalar ''A Custom Hook For Loading State''),
     (''categories'', Sequence [''React'', ''Hooks''])]"
  by (simp add: custom_hook_for_loading_state_def header_defs)

lemmas metadata_documents = metadata_ensure_column_relationships metadata_migrating_data
  metadata_custom_hook_for_loading_state metadata_react_loop_2019
  metadata_formik_connected_components

lemma react_loop_2019_in_documents: "react_loop_2019 \<in> set documents"
  by (simp add: documents_def)

lemma migrating_data_in_documents: "migrating_data \<in> set documents"
  by (simp add: documents_def)

lemma formik_connected_components_in_documents:
  "formik_connected_components \<in> set documents"
  by (simp add: documents_def)

text \<open>
  Claim C1. Every content document begins with a metadata header, and the header
  defines all three of the fields date, title and categories.
\<close>

theorem documents_define_front_matter:
  "\<forall>d \<in> set documents. \<forall>body. \<exists>m.
     metadata (d @ body) = Some m
     \<and> has_field m ''date'' \<and> has_field m ''title'' \<and> has_field m ''categories''"
  by (simp add: documents_def metadata_documents has_field_def)

theorem documents_define_front_matter_witness:
  "react_loop_2019 \<in> set documents
   \<and> (\<exists>m. metadata (react_loop_2019 @ [[], ''Chicago'']) = Some m
          \<and> has_field m ''date'' \<and> has_field m ''title'' \<and> has_field m ''categories'')"
  using documents_define_front_matter react_loop_2019_in_documents by blast

text \<open>
  Claim C4. Every content document has a valid date field: the header's date value
  is a syntactically valid calendar date in the form YYYY-MM-DD.
\<close>

theorem documents_have_valid_date:
  "\<forall>d \<in> set documents. \<forall>body. \<exists>m s.
     metadata (d @ body) = Some m \<and> map_of m ''date'' = Some (Scalar s) \<and> valid_date s"
  by (simp add: documents_def metadata_documents valid_date_def is_digit_def number_def
      days_in_month_def leap_year_def)

theorem documents_have_valid_date_witness:
  "migrating_data \<in> set documents
   \<and> (\<exists>m s. metadata (migrating_data @ []) = Some m
            \<and> map_of m ''date'' = Some (Scalar s) \<and> valid_date s)"
  using documents_have_valid_date migrating_data_in_documents by blast

text \<open>
  Claim C5. For every content document, the header's list of categories is non-empty
  and contains at least one of the topics React, PostgreSQL and Rails.
\<close>

theorem documents_have_topic_category:
  "\<forall>d \<in> set documents. \<forall>body. \<exists>m cs.
     metadata (d @ body) = Some m \<and> map_of m ''categories'' = Some (Sequence cs)
     \<and> cs \<noteq> [] \<and> (\<exists>c \<in> set cs. c \<in> set topics)"
  by (simp add: documents_def metadata_documents topics_def)

theorem documents_have_topic_category_witness:
  "formik_connected_components \<in> set documents
   \<and> (\<exists>m cs. metadata (formik_connected_components @ []) = Some m
             \<and> map_of m ''categories'' = Some (Sequence cs)
             \<and> cs \<noteq> [] \<and> (\<exists>c \<in> set cs. c \<in> set topics))"
  using documents_have_topic_category formik_connected_components_in_documents by blast

end
